theory Spec2Isabelle
  imports Main "HOL-Library.Word"
begin

unbundle bit_operations_syntax

section \<open>Strings\<close>

text \<open>
  A JavaScript string is a sequence of UTF-16 code units. The texts that the
  source spells out are ASCII, so they are written as HOL string literals and
  turned into code units by \<open>lit\<close>.
\<close>

type_synonym code_unit = "16 word"
type_synonym jsstring = "code_unit list"

definition lit :: "string \<Rightarrow> jsstring" where
  "lit s = map of_char s"

text \<open>
  \<^verbatim>\<open>String.prototype.trim\<close> removes, at both ends, the code units that are
  white space or line terminators of ECMAScript: TAB, LF, VT, FF, CR, SP, NBSP,
  U+1680, U+2000 to U+200A, LS, PS, U+202F, U+205F, U+3000 and the BOM.
\<close>

definition is_white_space :: "code_unit \<Rightarrow> bool" where
  "is_white_space c \<longleftrightarrow>
     c = 0x09 \<or> c = 0x0A \<or> c = 0x0B \<or> c = 0x0C \<or> c = 0x0D \<or> c = 0x20 \<or> c = 0xA0 \<or>
     c = 0x1680 \<or> (0x2000 \<le> c \<and> c \<le> 0x200A) \<or> c = 0x2028 \<or> c = 0x2029 \<or>
     c = 0x202F \<or> c = 0x205F \<or> c = 0x3000 \<or> c = 0xFEFF"

definition trim :: "jsstring \<Rightarrow> jsstring" where
  "trim s = rev (dropWhile is_white_space (rev (dropWhile is_white_space s)))"

section \<open>The request\<close>

text \<open>
  \<^verbatim>\<open>JSON.stringify({ brand_drug: brandDrug })\<close>: the key, then the value quoted
  as QuoteJSONString does. A quotation mark, a backslash and the control
  characters with a short form get their two-character escape; any other code
  unit below U+0020 and any surrogate that is not half of a pair is written
  \<^verbatim>\<open>\uXXXX\<close> in lower-case hexadecimal; everything else is copied.
\<close>

definition hex_digit :: "code_unit \<Rightarrow> code_unit" where
  "hex_digit d = (if d < 10 then 0x30 + d else 0x61 + (d - 10))"

definition UnicodeEscape :: "code_unit \<Rightarrow> jsstring" where
  "UnicodeEscape c =
     [0x5C, 0x75,
      hex_digit (drop_bit 12 c AND 0xF), hex_digit (drop_bit 8 c AND 0xF),
      hex_digit (drop_bit 4 c AND 0xF), hex_digit (c AND 0xF)]"

definition is_leading_surrogate :: "code_unit \<Rightarrow> bool" where
  "is_leading_surrogate c \<longleftrightarrow> 0xD800 \<le> c \<and> c \<le> 0xDBFF"

definition is_trailing_surrogate :: "code_unit \<Rightarrow> bool" where
  "is_trailing_surrogate c \<longleftrightarrow> 0xDC00 \<le> c \<and> c \<le> 0xDFFF"

fun quote_units :: "jsstring \<Rightarrow> jsstring" where
  "quote_units [] = []"
| "quote_units (c # cs) =
     (if c = 0x08 then [0x5C, 0x62] @ quote_units cs
      else if c = 0x09 then [0x5C, 0x74] @ quote_units cs
      else if c = 0x0A then [0x5C, 0x6E] @ quote_units cs
      else if c = 0x0C then [0x5C, 0x66] @ quote_units cs
      else if c = 0x0D then [0x5C, 0x72] @ quote_units cs
      else if c = 0x22 then [0x5C, 0x22] @ quote_units cs
      else if c = 0x5C then [0x5C, 0x5C] @ quote_units cs
      else if c < 0x20 then UnicodeEscape c @ quote_units cs
      else if is_leading_surrogate c then
        (case cs of
           [] \<Rightarrow> UnicodeEscape c
         | d # ds \<Rightarrow>
             if is_trailing_surrogate d then c # d # quote_units ds
             else UnicodeEscape c @ quote_units cs)
      else if is_trailing_surrogate c then UnicodeEscape c @ quote_units cs
      else c # quote_units cs)"

definition QuoteJSONString :: "jsstring \<Rightarrow> jsstring" where
  "QuoteJSONString s = [0x22] @ quote_units s @ [0x22]"

definition brand_drug_key :: jsstring where
  \<open>brand_drug_key = lit ''{"brand_drug":''\<close>

definition JSON_stringify :: "jsstring \<Rightarrow> jsstring" where
  "JSON_stringify brandDrug = brand_drug_key @ QuoteJSONString brandDrug @ lit ''}''"

record request =
  url :: jsstring
  http_method :: jsstring
  headers :: "(jsstring \<times> jsstring) list"
  body :: jsstring

definition search_request :: "jsstring \<Rightarrow> request" where
  "search_request brandDrug =
     \<lparr> url = lit ''http://localhost:5000/search'',
       http_method = lit ''POST'',
       headers = [(lit ''Content-Type'', lit ''application/json'')],
       body = JSON_stringify brandDrug \<rparr>"

section \<open>The body, as the endpoint reads it\<close>

text \<open>
  The endpoint is not part of the repository. To say what the body of a request
  means, this is a reader for the one form \<^verbatim>\<open>JSON.stringify\<close> writes here: an
  object with the single member \<^verbatim>\<open>brand_drug\<close>, whose value is a string in the
  grammar of JSON (RFC 8259). \<open>read_string\<close> starts after the opening quotation
  mark and gives the string and what follows its closing quotation mark.
\<close>

definition hex_value :: "code_unit \<Rightarrow> code_unit option" where
  "hex_value c =
     (if 0x30 \<le> c \<and> c \<le> 0x39 then Some (c - 0x30)
      else if 0x61 \<le> c \<and> c \<le> 0x66 then Some (c - 0x61 + 10)
      else if 0x41 \<le> c \<and> c \<le> 0x46 then Some (c - 0x41 + 10)
      else None)"

fun read_string :: "jsstring \<Rightarrow> (jsstring \<times> jsstring) option" where
  "read_string [] = None"
| "read_string (c # cs) =
     (if c = 0x22 then Some ([], cs)
      else if c = 0x5C then
        (case cs of
           [] \<Rightarrow> None
         | e # es \<Rightarrow>
             if e = 0x22 \<or> e = 0x5C \<or> e = 0x2F then map_option (apfst ((#) e)) (read_string es)
             else if e = 0x62 then map_option (apfst ((#) 0x08)) (read_string es)
             else if e = 0x66 then map_option (apfst ((#) 0x0C)) (read_string es)
             else if e = 0x6E then map_option (apfst ((#) 0x0A)) (read_string es)
             else if e = 0x72 then map_option (apfst ((#) 0x0D)) (read_string es)
             else if e = 0x74 then map_option (apfst ((#) 0x09)) (read_string es)
             else if e = 0x75 then
               (case es of
                  h1 # h2 # h3 # h4 # rest \<Rightarrow>
                    (case (hex_value h1, hex_value h2, hex_value h3, hex_value h4) of
                       (Some a, Some b, Some c', Some d) \<Rightarrow>
                         map_option
                           (apfst ((#) (push_bit 12 a OR push_bit 8 b OR push_bit 4 c' OR d)))
                           (read_string rest)
                     | _ \<Rightarrow> None)
                | _ \<Rightarrow> None)
             else None)
      else if c < 0x20 then None
      else map_option (apfst ((#) c)) (read_string cs))"

definition read_brand_drug :: "jsstring \<Rightarrow> jsstring option" where
  "read_brand_drug b =
     (if take (length brand_drug_key + 1) b = brand_drug_key @ [0x22] then
        (case read_string (drop (length brand_drug_key + 1) b) of
           None \<Rightarrow> None
         | Some (s, rest) \<Rightarrow> if rest = lit ''}'' then Some s else None)
      else None)"

section \<open>The response\<close>

text \<open>
  What a handler can catch: the reason \<^verbatim>\<open>fetch\<close> or \<^verbatim>\<open>response.json()\<close> rejects
  with, or the TypeError of a member access or conversion that fails.
\<close>

datatype js_error = TypeError | SyntaxError | AbortError

text \<open>
  The value \<^verbatim>\<open>response.json()\<close> resolves to. An object is the list of its
  members as the body has them, so a later member replaces an earlier one of
  the same name. The handlers only ever convert a number to a string, so a
  number is given by the text that conversion yields.
\<close>

datatype jvalue =
    JNull
  | JBool bool
  | JNumber jsstring
  | JString jsstring
  | JArray "jvalue list"
  | JObject "(jsstring \<times> jvalue) list"

record response =
  ok :: bool
  json :: "js_error + jvalue"

text \<open>
  The members the handlers read. None of them is a name that a string, an array
  or a built-in prototype has, so on anything but an object they are undefined
  (\<open>None\<close>), and reading them from \<^verbatim>\<open>null\<close> throws.
\<close>

datatype field =
  brand_drug | generic_info | raw_info | brand_info | generic_summary | retailer_info

fun field_name :: "field \<Rightarrow> jsstring" where
  "field_name brand_drug = lit ''brand_drug''"
| "field_name generic_info = lit ''generic_info''"
| "field_name raw_info = lit ''raw_info''"
| "field_name brand_info = lit ''brand_info''"
| "field_name generic_summary = lit ''generic_summary''"
| "field_name retailer_info = lit ''retailer_info''"

definition own_property :: "(jsstring \<times> jvalue) list \<Rightarrow> jsstring \<Rightarrow> jvalue option" where
  "own_property kvs k = map_of (rev kvs) k"

fun get_prop :: "jvalue \<Rightarrow> field \<Rightarrow> js_error + jvalue option" where
  "get_prop JNull f = Inl TypeError"
| "get_prop (JObject kvs) f = Inr (own_property kvs (field_name f))"
| "get_prop _ f = Inr None"

text \<open>
  ToString, as a template literal applies it. An array goes through
  \<^verbatim>\<open>Array.prototype.join\<close> with a comma, where a \<^verbatim>\<open>null\<close> element is the empty
  string. An object is \<^verbatim>\<open>[object Object]\<close>, unless it has a member of its own
  named \<^verbatim>\<open>toString\<close>: a value from JSON is never callable, and the conversion
  throws a TypeError.
\<close>

fun ToString :: "jvalue \<Rightarrow> js_error + jsstring"
  and join_comma :: "jvalue list \<Rightarrow> js_error + jsstring" where
  "ToString JNull = Inr (lit ''null'')"
| "ToString (JBool b) = Inr (if b then lit ''true'' else lit ''false'')"
| "ToString (JNumber s) = Inr s"
| "ToString (JString s) = Inr s"
| "ToString (JArray xs) = join_comma xs"
| "ToString (JObject kvs) =
     (if own_property kvs (lit ''toString'') = None then Inr (lit ''[object Object]'')
      else Inl TypeError)"
| "join_comma [] = Inr []"
| "join_comma (x # xs) =
     (case (if x = JNull then Inr [] else ToString x) of
        Inl e \<Rightarrow> Inl e
      | Inr s \<Rightarrow>
          if xs = [] then Inr s
          else (case join_comma xs of Inl e \<Rightarrow> Inl e | Inr r \<Rightarrow> Inr (s @ lit '','' @ r)))"

text \<open>Statements in sequence: the first one that throws ends the sequence.\<close>

definition and_then :: "js_error + 'a \<Rightarrow> ('a \<Rightarrow> js_error + 'b) \<Rightarrow> js_error + 'b" where
  "and_then r k = (case r of Inl e \<Rightarrow> Inl e | Inr x \<Rightarrow> k x)"

definition interpolate :: "jvalue option \<Rightarrow> js_error + jsstring" where
  "interpolate v = (case v of None \<Rightarrow> Inr (lit ''undefined'') | Some x \<Rightarrow> ToString x)"

definition member_text :: "jvalue \<Rightarrow> field \<Rightarrow> js_error + jsstring" where
  "member_text data f = and_then (get_prop data f) interpolate"

section \<open>The page\<close>

text \<open>
  The result container holds what was last assigned to it: markup through
  \<^verbatim>\<open>innerHTML\<close>, or plain text through \<^verbatim>\<open>innerText\<close>. The other fields record
  what one activation does outside the page: the alerts shown, the requests
  sent, the response bodies read and the lines written to the console.
\<close>

datatype content = innerHTML jsstring | innerText jsstring

record page =
  searchInput :: jsstring
  resultDiv :: content
  alerts :: "jsstring list"
  requests :: "request list"
  bodies_read :: nat
  console_error :: "(jsstring \<times> js_error) list"

definition alert :: "jsstring \<Rightarrow> page \<Rightarrow> page" where
  "alert msg p = p\<lparr>alerts := alerts p @ [msg]\<rparr>"

definition catch :: "js_error \<Rightarrow> page \<Rightarrow> page" where
  "catch error p =
     p\<lparr>console_error := console_error p @ [(lit ''Error:'', error)],
       resultDiv := innerText (lit ''An error occurred.'')\<rparr>"

section \<open>The handler of \<^verbatim>\<open>src/app.ts\<close>\<close>

definition template_A :: "jsstring \<Rightarrow> jsstring \<Rightarrow> jsstring \<Rightarrow> jsstring" where
  "template_A x y z =
     lit ''\<newline>             <h2>Generic Info for '' @ x @
     lit ''</h2>\<newline>             <p>'' @ y @
     lit ''</p>\<newline>             <h3>Raw Info</h3>\<newline>             <p>'' @ z @
     lit ''</p>\<newline>         ''"

definition markup_A :: "jvalue \<Rightarrow> js_error + jsstring" where
  "markup_A data =
     and_then (member_text data brand_drug) (\<lambda>x.
     and_then (member_text data generic_info) (\<lambda>y.
     and_then (member_text data raw_info) (\<lambda>z.
     Inr (template_A x y z))))"

definition handler_A :: "(request \<Rightarrow> js_error + response) \<Rightarrow> page \<Rightarrow> page" where
  "handler_A fetch p =
     (let brandDrug = trim (searchInput p) in
      if brandDrug = [] then alert (lit ''Please enter a brand drug name.'') p
      else
        let req = search_request brandDrug;
            p1 = p\<lparr>requests := requests p @ [req]\<rparr>
        in case fetch req of
             Inl error \<Rightarrow> catch error p1
           | Inr response \<Rightarrow>
               if \<not> ok response then
                 p1\<lparr>resultDiv := innerText (lit ''Error fetching drug information.'')\<rparr>
               else
                 (let p2 = p1\<lparr>bodies_read := bodies_read p1 + 1\<rparr>
                  in (case json response of
                        Inl error \<Rightarrow> catch error p2
                      | Inr data \<Rightarrow>
                          (case markup_A data of
                             Inl error \<Rightarrow> catch error p2
                           | Inr html \<Rightarrow> p2\<lparr>resultDiv := innerHTML html\<rparr>))))"

section \<open>The handler of \<^verbatim>\<open>src/unnamed/part_000\<close>\<close>

definition template_B :: "jsstring \<Rightarrow> jsstring \<Rightarrow> jsstring \<Rightarrow> jsstring" where
  \<open>template_B x y row =
     lit ''\<newline>            <div class="top-row">\<newline>                <div id="brand-box" class="box">\<newline>                    <h2>Brand Info</h2>\<newline>                    <pre>'' @ x @
     lit ''</pre>\<newline>                </div>\<newline>                <div id="generic-box" class="box">\<newline>                    <h2>Generic Summary</h2>\<newline>                    <pre>'' @ y @
     lit ''</pre>\<newline>                </div>\<newline>            </div>\<newline>            <div id="retailer-row" class="row">\<newline>                '' @ row @
     lit ''\<newline>            </div>\<newline>        ''\<close>

definition retailer_box :: "jsstring \<Rightarrow> jsstring" where
  \<open>retailer_box info = lit ''<div class="retailer-box box"><pre>'' @ info @ lit ''</pre></div>''\<close>

text \<open>
  \<^verbatim>\<open>data.retailer_info.map(...)\<close>: the callback converts each element in turn;
  \<^verbatim>\<open>.join("")\<close> then concatenates the boxes. Only an array has a \<^verbatim>\<open>map\<close> that
  can be called: on undefined and \<^verbatim>\<open>null\<close> the member access throws, and on any
  other value \<^verbatim>\<open>map\<close> is undefined or a value from JSON, and the call throws.
\<close>

fun retailer_boxes :: "jvalue list \<Rightarrow> js_error + jsstring list" where
  "retailer_boxes [] = Inr []"
| "retailer_boxes (info # rest) =
     (case ToString info of
        Inl e \<Rightarrow> Inl e
      | Inr s \<Rightarrow>
          (case retailer_boxes rest of Inl e \<Rightarrow> Inl e | Inr bs \<Rightarrow> Inr (retailer_box s # bs)))"

fun retailer_row :: "jvalue option \<Rightarrow> js_error + jsstring" where
  "retailer_row (Some (JArray xs)) =
     (case retailer_boxes xs of Inl e \<Rightarrow> Inl e | Inr bs \<Rightarrow> Inr (concat bs))"
| "retailer_row _ = Inl TypeError"

definition markup_B :: "jvalue \<Rightarrow> js_error + jsstring" where
  "markup_B data =
     and_then (member_text data brand_info) (\<lambda>x.
     and_then (member_text data generic_summary) (\<lambda>y.
     and_then (get_prop data retailer_info) (\<lambda>v.
     and_then (retailer_row v) (\<lambda>row.
     Inr (template_B x y row)))))"

definition handler_B :: "(request \<Rightarrow> js_error + response) \<Rightarrow> page \<Rightarrow> page" where
  "handler_B fetch p =
     (let brandDrug = trim (searchInput p) in
      if brandDrug = [] then alert (lit ''Please enter a brand drug name.'') p
      else
        let req = search_request brandDrug;
            p1 = p\<lparr>requests := requests p @ [req]\<rparr>
        in case fetch req of
             Inl error \<Rightarrow> catch error p1
           | Inr response \<Rightarrow>
               if \<not> ok response then
                 p1\<lparr>resultDiv := innerText (lit ''Error fetching drug information.'')\<rparr>
               else
                 (let p2 = p1\<lparr>bodies_read := bodies_read p1 + 1\<rparr>
                  in (case json response of
                        Inl error \<Rightarrow> catch error p2
                      | Inr data \<Rightarrow>
                          (case markup_B data of
                             Inl error \<Rightarrow> catch error p2
                           | Inr html \<Rightarrow> p2\<lparr>resultDiv := innerHTML html\<rparr>))))"

section \<open>Test fixtures\<close>

text \<open>
  A page before any activation, a \<^verbatim>\<open>fetch\<close> that settles the same way whatever
  it is asked, and the two response bodies the specification gives as examples.
\<close>

definition page_with :: "jsstring \<Rightarrow> page" where
  "page_with v =
     \<lparr> searchInput = v, resultDiv = innerHTML [], alerts = [], requests = [],
       bodies_read = 0, console_error = [] \<rparr>"

definition mock_fetch :: "js_error + response \<Rightarrow> request \<Rightarrow> js_error + response" where
  "mock_fetch outcome req = outcome"

definition shape_A_body :: jvalue where
  "shape_A_body =
     JObject [(lit ''brand_drug'', JString (lit ''X'')),
              (lit ''generic_info'', JString (lit ''Y'')),
              (lit ''raw_info'', JString (lit ''Z''))]"

definition shape_B_body :: jvalue where
  "shape_B_body =
     JObject [(lit ''brand_info'', JString (lit ''A'')),
              (lit ''generic_summary'', JString (lit ''B'')),
              (lit ''retailer_info'', JArray [JString (lit ''C''), JString (lit ''D'')])]"

section \<open>Trimming\<close>

lemma dropWhile_rev_dropWhile_Nil:
  "dropWhile P (rev (dropWhile P s)) = [] \<longleftrightarrow> dropWhile P s = []"
proof
  assume h: "dropWhile P (rev (dropWhile P s)) = []"
  show "dropWhile P s = []"
  proof (rule ccontr)
    assume ne: "dropWhile P s \<noteq> []"
    then have "\<not> P (hd (dropWhile P s))" by (rule hd_dropWhile)
    moreover have "hd (dropWhile P s) \<in> set (rev (dropWhile P s))" using ne by simp
    moreover have "\<forall>x \<in> set (rev (dropWhile P s)). P x"
      using h by (simp only: dropWhile_eq_Nil_conv)
    ultimately show False by blast
  qed
next
  assume "dropWhile P s = []"
  then show "dropWhile P (rev (dropWhile P s)) = []"
    by (simp only: rev.simps dropWhile.simps)
qed

lemma trim_empty_iff: "trim s = [] \<longleftrightarrow> (\<forall>c \<in> set s. is_white_space c)"
proof -
  have "trim s = [] \<longleftrightarrow> dropWhile is_white_space (rev (dropWhile is_white_space s)) = []"
    unfolding trim_def by (simp only: rev_is_Nil_conv)
  also have "\<dots> \<longleftrightarrow> dropWhile is_white_space s = []"
    by (rule dropWhile_rev_dropWhile_Nil)
  also have "\<dots> \<longleftrightarrow> (\<forall>c \<in> set s. is_white_space c)"
    by (simp only: dropWhile_eq_Nil_conv)
  finally show ?thesis .
qed

lemma trim_blank: "list_all is_white_space s \<Longrightarrow> trim s = []"
  by (simp add: trim_empty_iff list_all_iff)

section \<open>Quoting can be undone\<close>

lemma mask4: "(0xF :: code_unit) = mask 4"
  by (simp add: mask_eq_exp_minus_1)

lemma nibbles:
  "push_bit 12 (drop_bit 12 c AND 0xF) OR push_bit 8 (drop_bit 8 c AND 0xF)
     OR push_bit 4 (drop_bit 4 c AND 0xF) OR (c AND 0xF) = (c :: code_unit)"
  unfolding mask4
proof (rule bit_word_eqI)
  fix n :: nat
  assume "n < LENGTH(16)"
  then consider "n < 4" | "4 \<le> n \<and> n < 8" | "8 \<le> n \<and> n < 12" | "12 \<le> n \<and> n < 16"
    by (simp; arith)
  then show "bit (push_bit 12 (drop_bit 12 c AND mask 4) OR push_bit 8 (drop_bit 8 c AND mask 4)
                  OR push_bit 4 (drop_bit 4 c AND mask 4) OR (c AND mask 4)) n = bit c n"
  proof cases
    case 1 then show ?thesis by (simp add: bit_simps)
  next
    case 2 then show ?thesis by (auto simp add: bit_simps)
  next
    case 3 then show ?thesis by (auto simp add: bit_simps)
  next
    case 4 then show ?thesis by (auto simp add: bit_simps)
  qed
qed

lemma nibble_cases:
  fixes n :: code_unit
  assumes "n = x AND 0xF"
  shows "n \<in> {0,1,2,3,4,5,6,7,8,9,10,11,12,13,14,15}"
proof -
  have "n \<le> 0xF" unfolding assms by (rule word_and_le1)
  then have "unat n \<le> 15" by (simp add: word_le_nat_alt)
  then have "unat n = 0 \<or> unat n = 1 \<or> unat n = 2 \<or> unat n = 3 \<or> unat n = 4 \<or> unat n = 5
      \<or> unat n = 6 \<or> unat n = 7 \<or> unat n = 8 \<or> unat n = 9 \<or> unat n = 10 \<or> unat n = 11
      \<or> unat n = 12 \<or> unat n = 13 \<or> unat n = 14 \<or> unat n = 15" by arith
  then show ?thesis by (auto simp add: word_unat_eq_iff)
qed

lemma hex_value_digit: "hex_value (hex_digit (x AND 0xF)) = Some (x AND 0xF)"
proof -
  have "\<forall>m \<in> {0,1,2,3,4,5,6,7,8,9,10,11,12,13,14,15 :: code_unit}.
          hex_value (hex_digit m) = Some m"
    by (simp add: hex_value_def hex_digit_def)
  then show ?thesis using nibble_cases [OF refl, of x] by blast
qed

lemma surrogate_plain:
  fixes c :: code_unit
  assumes "0xD800 \<le> c"
  shows "c \<noteq> 0x22" "c \<noteq> 0x5C" "\<not> c < 0x20"
  using assms by (auto simp add: word_le_nat_alt word_less_nat_alt)

lemma read_string_escape:
  "read_string (UnicodeEscape c @ rest) = map_option (apfst ((#) c)) (read_string rest)"
proof -
  have n: "push_bit 12 (drop_bit 12 c) AND 61440 OR push_bit 8 (drop_bit 8 c) AND 3840 OR
           push_bit 4 (drop_bit 4 c) AND 240 OR c AND 15 = c"
    using nibbles [of c] by simp
  show ?thesis by (simp add: UnicodeEscape_def hex_value_digit n)
qed

lemma read_string_short:
  "read_string (0x5C # 0x62 # rest) = map_option (apfst ((#) 0x08)) (read_string rest)"
  "read_string (0x5C # 0x74 # rest) = map_option (apfst ((#) 0x09)) (read_string rest)"
  "read_string (0x5C # 0x6E # rest) = map_option (apfst ((#) 0x0A)) (read_string rest)"
  "read_string (0x5C # 0x66 # rest) = map_option (apfst ((#) 0x0C)) (read_string rest)"
  "read_string (0x5C # 0x72 # rest) = map_option (apfst ((#) 0x0D)) (read_string rest)"
  "read_string (0x5C # 0x22 # rest) = map_option (apfst ((#) 0x22)) (read_string rest)"
  "read_string (0x5C # 0x5C # rest) = map_option (apfst ((#) 0x5C)) (read_string rest)"
  by simp_all

lemma read_string_plain:
  "c \<noteq> 0x22 \<Longrightarrow> c \<noteq> 0x5C \<Longrightarrow> \<not> c < 0x20 \<Longrightarrow>
   read_string (c # cs) = map_option (apfst ((#) c)) (read_string cs)"
  by simp

lemma read_string_end: "read_string (0x22 # r) = Some ([], r)"
  by simp

lemma read_string_quote_units:
  "read_string (quote_units s @ 0x22 # r) = Some (s, r)"
proof (induction s rule: length_induct)
  case (1 s)
  have IH: "read_string (quote_units ys @ 0x22 # r) = Some (ys, r)"
    if "length ys < length s" for ys
    using 1 that by blast
  show ?case
  proof (cases s)
    case Nil
    then show ?thesis by simp
  next
    case (Cons c cs)
    have ih: "read_string (quote_units cs @ 0x22 # r) = Some (cs, r)"
      using IH [of cs] Cons by simp
    consider (short) "c = 0x08 \<or> c = 0x09 \<or> c = 0x0A \<or> c = 0x0C \<or> c = 0x0D \<or> c = 0x22 \<or> c = 0x5C"
      | (other) "c \<noteq> 0x08" "c \<noteq> 0x09" "c \<noteq> 0x0A" "c \<noteq> 0x0C" "c \<noteq> 0x0D" "c \<noteq> 0x22" "c \<noteq> 0x5C"
      by blast
    then show ?thesis
    proof cases
      case short
      then show ?thesis unfolding Cons using ih
        by (elim disjE) (simp_all add: read_string_short del: read_string.simps)
    next
      case other
      show ?thesis
      proof (cases "c < 0x20")
        case True
        then show ?thesis unfolding Cons using ih other
          by (simp add: read_string_escape del: read_string.simps)
      next
        case ge: False
        show ?thesis
        proof (cases "is_leading_surrogate c")
          case lead: True
          show ?thesis
          proof (cases cs)
            case Nil
            then show ?thesis unfolding Cons using other ge lead
              by (simp add: read_string_escape read_string_end del: read_string.simps)
          next
            case cs: (Cons d ds)
            show ?thesis
            proof (cases "is_trailing_surrogate d")
              case True
              have pd: "d \<noteq> 0x22" "d \<noteq> 0x5C" "\<not> d < 0x20"
                using True by (auto simp add: is_trailing_surrogate_def word_le_nat_alt word_less_nat_alt)
              have "read_string (quote_units ds @ 0x22 # r) = Some (ds, r)"
                using IH [of ds] Cons cs by simp
              then show ?thesis unfolding Cons cs using other ge lead True pd
                by (simp add: read_string_plain del: read_string.simps)
            next
              case False
              then show ?thesis unfolding Cons using ih other ge lead cs
                by (simp add: read_string_escape del: read_string.simps)
            qed
          qed
        next
          case nl: False
          show ?thesis
          proof (cases "is_trailing_surrogate c")
            case True
            then show ?thesis unfolding Cons using ih other ge nl
              by (simp add: read_string_escape del: read_string.simps)
          next
            case False
            then show ?thesis unfolding Cons using ih other ge nl
              by (simp add: read_string_plain del: read_string.simps)
          qed
        qed
      qed
    qed
  qed
qed

lemma read_brand_drug_stringify: "read_brand_drug (JSON_stringify s) = Some s"
proof -
  have "JSON_stringify s = (brand_drug_key @ [0x22]) @ (quote_units s @ 0x22 # lit ''}'')"
    by (simp add: JSON_stringify_def QuoteJSONString_def)
  then show ?thesis
    by (simp add: read_brand_drug_def read_string_quote_units del: read_string.simps)
qed

section \<open>The paths of one activation\<close>

lemma handler_A_blank:
  "trim (searchInput p) = [] \<Longrightarrow> handler_A fetch p = alert (lit ''Please enter a brand drug name.'') p"
  by (simp add: handler_A_def)

lemma handler_B_blank:
  "trim (searchInput p) = [] \<Longrightarrow> handler_B fetch p = alert (lit ''Please enter a brand drug name.'') p"
  by (simp add: handler_B_def)

text \<open>With a query, one equation for each way the activation can go.\<close>

lemma handler_A_rejected:
  assumes "trim (searchInput p) \<noteq> []"
    and "fetch (search_request (trim (searchInput p))) = Inl e"
  shows "handler_A fetch p =
           catch e (p\<lparr>requests := requests p @ [search_request (trim (searchInput p))]\<rparr>)"
  using assms by (simp add: handler_A_def Let_def)

lemma handler_A_not_ok:
  assumes "trim (searchInput p) \<noteq> []"
    and "fetch (search_request (trim (searchInput p))) = Inr r" and "\<not> ok r"
  shows "handler_A fetch p =
           p\<lparr>requests := requests p @ [search_request (trim (searchInput p))],
             resultDiv := innerText (lit ''Error fetching drug information.'')\<rparr>"
  using assms by (simp add: handler_A_def Let_def)

lemma handler_A_bad_body:
  assumes "trim (searchInput p) \<noteq> []"
    and "fetch (search_request (trim (searchInput p))) = Inr r" and "ok r"
    and "json r = Inl e"
  shows "handler_A fetch p =
           catch e (p\<lparr>requests := requests p @ [search_request (trim (searchInput p))],
                      bodies_read := bodies_read p + 1\<rparr>)"
  using assms by (simp add: handler_A_def Let_def)

lemma handler_A_render_throws:
  assumes "trim (searchInput p) \<noteq> []"
    and "fetch (search_request (trim (searchInput p))) = Inr r" and "ok r"
    and "json r = Inr d" and "markup_A d = Inl e"
  shows "handler_A fetch p =
           catch e (p\<lparr>requests := requests p @ [search_request (trim (searchInput p))],
                      bodies_read := bodies_read p + 1\<rparr>)"
  using assms by (simp add: handler_A_def Let_def)

lemma handler_A_rendered:
  assumes "trim (searchInput p) \<noteq> []"
    and "fetch (search_request (trim (searchInput p))) = Inr r" and "ok r"
    and "json r = Inr d" and "markup_A d = Inr html"
  shows "handler_A fetch p =
           p\<lparr>requests := requests p @ [search_request (trim (searchInput p))],
             bodies_read := bodies_read p + 1,
             resultDiv := innerHTML html\<rparr>"
  using assms by (simp add: handler_A_def Let_def)

lemma handler_B_rejected:
  assumes "trim (searchInput p) \<noteq> []"
    and "fetch (search_request (trim (searchInput p))) = Inl e"
  shows "handler_B fetch p =
           catch e (p\<lparr>requests := requests p @ [search_request (trim (searchInput p))]\<rparr>)"
  using assms by (simp add: handler_B_def Let_def)

lemma handler_B_not_ok:
  assumes "trim (searchInput p) \<noteq> []"
    and "fetch (search_request (trim (searchInput p))) = Inr r" and "\<not> ok r"
  shows "handler_B fetch p =
           p\<lparr>requests := requests p @ [search_request (trim (searchInput p))],
             resultDiv := innerText (lit ''Error fetching drug information.'')\<rparr>"
  using assms by (simp add: handler_B_def Let_def)

lemma handler_B_bad_body:
  assumes "trim (searchInput p) \<noteq> []"
    and "fetch (search_request (trim (searchInput p))) = Inr r" and "ok r"
    and "json r = Inl e"
  shows "handler_B fetch p =
           catch e (p\<lparr>requests := requests p @ [search_request (trim (searchInput p))],
                      bodies_read := bodies_read p + 1\<rparr>)"
  using assms by (simp add: handler_B_def Let_def)

lemma handler_B_render_throws:
  assumes "trim (searchInput p) \<noteq> []"
    and "fetch (search_request (trim (searchInput p))) = Inr r" and "ok r"
    and "json r = Inr d" and "markup_B d = Inl e"
  shows "handler_B fetch p =
           catch e (p\<lparr>requests := requests p @ [search_request (trim (searchInput p))],
                      bodies_read := bodies_read p + 1\<rparr>)"
  using assms by (simp add: handler_B_def Let_def)

lemma handler_B_rendered:
  assumes "trim (searchInput p) \<noteq> []"
    and "fetch (search_request (trim (searchInput p))) = Inr r" and "ok r"
    and "json r = Inr d" and "markup_B d = Inr html"
  shows "handler_B fetch p =
           p\<lparr>requests := requests p @ [search_request (trim (searchInput p))],
             bodies_read := bodies_read p + 1,
             resultDiv := innerHTML html\<rparr>"
  using assms by (simp add: handler_B_def Let_def)

lemma requests_handler_A:
  "trim (searchInput p) \<noteq> [] \<Longrightarrow>
   requests (handler_A fetch p) = requests p @ [search_request (trim (searchInput p))]"
  by (simp add: handler_A_def Let_def catch_def split: sum.splits)

lemma requests_handler_B:
  "trim (searchInput p) \<noteq> [] \<Longrightarrow>
   requests (handler_B fetch p) = requests p @ [search_request (trim (searchInput p))]"
  by (simp add: handler_B_def Let_def catch_def split: sum.splits)

lemma searchInput_handler_A: "searchInput (handler_A fetch p) = searchInput p"
  by (simp add: handler_A_def Let_def catch_def alert_def split: sum.splits)

lemma searchInput_handler_B: "searchInput (handler_B fetch p) = searchInput p"
  by (simp add: handler_B_def Let_def catch_def alert_def split: sum.splits)

lemma resultDiv_handler_A_cong:
  "searchInput p = searchInput p' \<Longrightarrow> trim (searchInput p) \<noteq> [] \<Longrightarrow>
   resultDiv (handler_A fetch p) = resultDiv (handler_A fetch p')"
  by (simp add: handler_A_def Let_def catch_def split: sum.splits)

lemma resultDiv_handler_B_cong:
  "searchInput p = searchInput p' \<Longrightarrow> trim (searchInput p) \<noteq> [] \<Longrightarrow>
   resultDiv (handler_B fetch p) = resultDiv (handler_B fetch p')"
  by (simp add: handler_B_def Let_def catch_def split: sum.splits)

section \<open>Rendering\<close>

lemma member_text_string:
  "get_prop d f = Inr (Some (JString s)) \<Longrightarrow> member_text d f = Inr s"
  by (simp add: member_text_def and_then_def interpolate_def)

lemma member_text_undefined:
  "get_prop d f = Inr None \<Longrightarrow> member_text d f = Inr (lit ''undefined'')"
  by (simp add: member_text_def and_then_def interpolate_def)

lemma retailer_boxes_strings: "retailer_boxes (map JString infos) = Inr (map retailer_box infos)"
  by (induction infos) simp_all

lemma retailer_row_not_array:
  "(\<forall>xs. v \<noteq> Some (JArray xs)) \<Longrightarrow> retailer_row v = Inl TypeError"
  by (cases v rule: retailer_row.cases) simp_all

text \<open>Whatever the rendering throws is a TypeError.\<close>

lemma ToString_TypeError:
  "ToString x = Inl e \<Longrightarrow> e = TypeError"
  "join_comma xs = Inl e \<Longrightarrow> e = TypeError"
  by (induction x and xs arbitrary: e and e rule: ToString_join_comma.induct)
     (auto split: if_splits sum.splits)

lemma get_prop_TypeError: "get_prop d f = Inl e \<Longrightarrow> e = TypeError"
  by (cases d) simp_all

lemma member_text_TypeError: "member_text d f = Inl e \<Longrightarrow> e = TypeError"
  by (auto simp add: member_text_def and_then_def interpolate_def
      split: sum.splits option.splits dest: get_prop_TypeError ToString_TypeError(1))

lemma markup_B_not_array:
  assumes "\<forall>xs. get_prop d retailer_info \<noteq> Inr (Some (JArray xs))"
  shows "markup_B d = Inl TypeError"
proof (cases "member_text d brand_info")
  case (Inl e)
  then show ?thesis using member_text_TypeError [OF Inl] by (simp add: markup_B_def and_then_def)
next
  case x: (Inr x)
  show ?thesis
  proof (cases "member_text d generic_summary")
    case (Inl e)
    then show ?thesis using x member_text_TypeError [OF Inl] by (simp add: markup_B_def and_then_def)
  next
    case y: (Inr y)
    show ?thesis
    proof (cases "get_prop d retailer_info")
      case (Inl e)
      then show ?thesis using x y get_prop_TypeError [OF Inl] by (simp add: markup_B_def and_then_def)
    next
      case (Inr v)
      then have "\<forall>xs. v \<noteq> Some (JArray xs)" using assms by simp
      then have "retailer_row v = Inl TypeError" by (rule retailer_row_not_array)
      then show ?thesis using x y Inr by (simp add: markup_B_def and_then_def)
    qed
  qed
qed

lemma markup_A_strings:
  assumes "get_prop d brand_drug = Inr (Some (JString x))"
    and "get_prop d generic_info = Inr (Some (JString y))"
    and "get_prop d raw_info = Inr (Some (JString z))"
  shows "markup_A d = Inr (template_A x y z)"
  using assms by (simp add: markup_A_def and_then_def member_text_string)

lemma markup_B_strings:
  assumes "get_prop d brand_info = Inr (Some (JString x))"
    and "get_prop d generic_summary = Inr (Some (JString y))"
    and "get_prop d retailer_info = Inr (Some (JArray (map JString infos)))"
  shows "markup_B d = Inr (template_B x y (concat (map retailer_box infos)))"
  using assms by (simp add: markup_B_def and_then_def member_text_string retailer_boxes_strings)

lemma markup_A_texts:
  assumes "member_text d brand_drug = Inr x"
    and "member_text d generic_info = Inr y"
    and "member_text d raw_info = Inr z"
  shows "markup_A d = Inr (template_A x y z)"
  using assms by (simp add: markup_A_def and_then_def)

lemma markup_B_texts:
  assumes "member_text d brand_info = Inr x"
    and "member_text d generic_summary = Inr y"
    and "get_prop d retailer_info = Inr (Some (JArray (map JString infos)))"
  shows "markup_B d = Inr (template_B x y (concat (map retailer_box infos)))"
  using assms by (simp add: markup_B_def and_then_def retailer_boxes_strings)

section \<open>The fixtures, evaluated\<close>

lemma page_with_simps:
  "searchInput (page_with v) = v" "resultDiv (page_with v) = innerHTML []"
  "alerts (page_with v) = []" "requests (page_with v) = []"
  "bodies_read (page_with v) = 0" "console_error (page_with v) = []"
  by (simp_all add: page_with_def)

lemma mock_fetch_simp: "mock_fetch outcome req = outcome"
  by (simp add: mock_fetch_def)

lemma trim_aspirin: "trim (lit '' aspirin '') = lit ''aspirin''"
  by (simp add: trim_def lit_def is_white_space_def)

lemma query_aspirin:
  "trim (searchInput (page_with (lit '' aspirin ''))) = lit ''aspirin''"
  "trim (searchInput (page_with (lit '' aspirin ''))) \<noteq> []"
  by (simp_all add: page_with_def trim_aspirin) (simp add: lit_def)

lemma query_blank: "list_all is_white_space (searchInput (page_with (lit '' '')))"
  by (simp add: page_with_def lit_def is_white_space_def)

lemma stringify_aspirin:
  \<open>JSON_stringify (lit ''aspirin'') = lit ''{"brand_drug":"aspirin"}''\<close>
  by (simp add: JSON_stringify_def brand_drug_key_def QuoteJSONString_def lit_def
      is_leading_surrogate_def is_trailing_surrogate_def)

lemma get_prop_shape_A:
  "get_prop shape_A_body brand_drug = Inr (Some (JString (lit ''X'')))"
  "get_prop shape_A_body generic_info = Inr (Some (JString (lit ''Y'')))"
  "get_prop shape_A_body raw_info = Inr (Some (JString (lit ''Z'')))"
  "get_prop shape_A_body brand_info = Inr None"
  "get_prop shape_A_body generic_summary = Inr None"
  "get_prop shape_A_body retailer_info = Inr None"
  by (simp_all add: shape_A_body_def own_property_def lit_def)

lemma get_prop_shape_B:
  "get_prop shape_B_body brand_info = Inr (Some (JString (lit ''A'')))"
  "get_prop shape_B_body generic_summary = Inr (Some (JString (lit ''B'')))"
  "get_prop shape_B_body retailer_info = Inr (Some (JArray (map JString [lit ''C'', lit ''D''])))"
  "get_prop shape_B_body brand_drug = Inr None"
  "get_prop shape_B_body generic_info = Inr None"
  "get_prop shape_B_body raw_info = Inr None"
  by (simp_all add: shape_B_body_def own_property_def lit_def)

lemma lit_append: "lit a @ lit b = lit (a @ b)" "lit a @ lit b @ r = lit (a @ b) @ r"
  by (simp_all add: lit_def)

lemma template_A_XYZ:
  "template_A (lit ''X'') (lit ''Y'') (lit ''Z'') =
   lit ''\<newline>             <h2>Generic Info for X</h2>\<newline>             <p>Y</p>\<newline>             <h3>Raw Info</h3>\<newline>             <p>Z</p>\<newline>         ''"
  by (simp add: template_A_def lit_append)

lemma template_B_ABCD:
  \<open>template_B (lit ''A'') (lit ''B'') (retailer_box (lit ''C'') @ retailer_box (lit ''D'')) =
   lit ''\<newline>            <div class="top-row">\<newline>                <div id="brand-box" class="box">\<newline>                    <h2>Brand Info</h2>\<newline>                    <pre>A</pre>\<newline>                </div>\<newline>                <div id="generic-box" class="box">\<newline>                    <h2>Generic Summary</h2>\<newline>                    <pre>B</pre>\<newline>                </div>\<newline>            </div>\<newline>            <div id="retailer-row" class="row">\<newline>                <div class="retailer-box box"><pre>C</pre></div><div class="retailer-box box"><pre>D</pre></div>\<newline>            </div>\<newline>        ''\<close>
  by (simp add: template_B_def retailer_box_def lit_append)

section \<open>What the markup depends on\<close>

lemma member_text_cong:
  "get_prop d' f = get_prop d f \<Longrightarrow> member_text d' f = member_text d f"
  by (simp add: member_text_def)

lemma markup_A_cong:
  assumes "get_prop d' brand_drug = get_prop d brand_drug"
    and "get_prop d' generic_info = get_prop d generic_info"
    and "get_prop d' raw_info = get_prop d raw_info"
  shows "markup_A d' = markup_A d"
  using assms [THEN member_text_cong] by (simp add: markup_A_def)

lemma markup_B_cong:
  assumes "get_prop d' brand_info = get_prop d brand_info"
    and "get_prop d' generic_summary = get_prop d generic_summary"
    and "get_prop d' retailer_info = get_prop d retailer_info"
  shows "markup_B d' = markup_B d"
  using assms(1,2) [THEN member_text_cong] assms(3) by (simp add: markup_B_def)

lemma member_text_missing_or_string:
  "get_prop d f = Inr (map_option JString a) \<Longrightarrow>
   member_text d f = Inr (case a of None \<Rightarrow> lit ''undefined'' | Some s \<Rightarrow> s)"
  by (cases a) (simp_all add: member_text_def and_then_def interpolate_def)

lemma handler_A_same_markup:
  assumes "trim (searchInput p) \<noteq> []"
    and "fetch (search_request (trim (searchInput p))) = Inr r"
    and "ok r" and "json r = Inr d" and "markup_A d' = markup_A d"
  shows "handler_A (mock_fetch (Inr (r\<lparr>json := Inr d'\<rparr>))) p = handler_A fetch p"
proof -
  have m: "mock_fetch (Inr (r\<lparr>json := Inr d'\<rparr>)) (search_request (trim (searchInput p)))
             = Inr (r\<lparr>json := Inr d'\<rparr>)"
    by (rule mock_fetch_simp)
  have o: "ok (r\<lparr>json := Inr d'\<rparr>)" and j: "json (r\<lparr>json := Inr d'\<rparr>) = Inr d'"
    using assms(3) by simp_all
  show ?thesis
  proof (cases "markup_A d")
    case (Inl e)
    then have "markup_A d' = Inl e" using assms(5) by simp
    then show ?thesis
      using handler_A_render_throws
          [where fetch = "mock_fetch (Inr (r\<lparr>json := Inr d'\<rparr>))" and p = p,
            OF assms(1) m o j]
        handler_A_render_throws [where fetch = fetch and p = p and r = r, OF assms(1-4) Inl]
      by simp
  next
    case (Inr html)
    then have "markup_A d' = Inr html" using assms(5) by simp
    then show ?thesis
      using handler_A_rendered
          [where fetch = "mock_fetch (Inr (r\<lparr>json := Inr d'\<rparr>))" and p = p,
            OF assms(1) m o j]
        handler_A_rendered [where fetch = fetch and p = p and r = r, OF assms(1-4) Inr]
      by simp
  qed
qed

lemma handler_B_same_markup:
  assumes "trim (searchInput p) \<noteq> []"
    and "fetch (search_request (trim (searchInput p))) = Inr r"
    and "ok r" and "json r = Inr d" and "markup_B d' = markup_B d"
  shows "handler_B (mock_fetch (Inr (r\<lparr>json := Inr d'\<rparr>))) p = handler_B fetch p"
proof -
  have m: "mock_fetch (Inr (r\<lparr>json := Inr d'\<rparr>)) (search_request (trim (searchInput p)))
             = Inr (r\<lparr>json := Inr d'\<rparr>)"
    by (rule mock_fetch_simp)
  have o: "ok (r\<lparr>json := Inr d'\<rparr>)" and j: "json (r\<lparr>json := Inr d'\<rparr>) = Inr d'"
    using assms(3) by simp_all
  show ?thesis
  proof (cases "markup_B d")
    case (Inl e)
    then have "markup_B d' = Inl e" using assms(5) by simp
    then show ?thesis
      using handler_B_render_throws
          [where fetch = "mock_fetch (Inr (r\<lparr>json := Inr d'\<rparr>))" and p = p,
            OF assms(1) m o j]
        handler_B_render_throws [where fetch = fetch and p = p and r = r, OF assms(1-4) Inl]
      by simp
  next
    case (Inr html)
    then have "markup_B d' = Inr html" using assms(5) by simp
    then show ?thesis
      using handler_B_rendered
          [where fetch = "mock_fetch (Inr (r\<lparr>json := Inr d'\<rparr>))" and p = p,
            OF assms(1) m o j]
        handler_B_rendered [where fetch = fetch and p = p and r = r, OF assms(1-4) Inr]
      by simp
  qed
qed

section \<open>The claims\<close>

text \<open>
  C1. Whenever the trimmed input is not empty, an activation sends exactly one
  request and no other: a POST to \<^verbatim>\<open>http://localhost:5000/search\<close> with the
  header \<^verbatim>\<open>Content-Type: application/json\<close>, whose body is the JSON text of
  the object with the one member \<^verbatim>\<open>brand_drug\<close>, the trimmed input. This holds
  for both handlers and however the request settles. Read back as JSON, the
  body gives the trimmed input again, whatever code units it holds.
\<close>

theorem one_post_per_query:
  assumes "trim (searchInput p) \<noteq> []"
  shows "requests (handler_A fetch p) =
           requests p @
           [\<lparr> url = lit ''http://localhost:5000/search'', http_method = lit ''POST'',
              headers = [(lit ''Content-Type'', lit ''application/json'')],
              body = JSON_stringify (trim (searchInput p)) \<rparr>]
       \<and> requests (handler_B fetch p) =
           requests p @
           [\<lparr> url = lit ''http://localhost:5000/search'', http_method = lit ''POST'',
              headers = [(lit ''Content-Type'', lit ''application/json'')],
              body = JSON_stringify (trim (searchInput p)) \<rparr>]
       \<and> read_brand_drug (JSON_stringify (trim (searchInput p))) = Some (trim (searchInput p))"
  using assms
  by (simp add: requests_handler_A requests_handler_B search_request_def
      read_brand_drug_stringify)

theorem one_post_per_query_witness:
  \<open>trim (searchInput (page_with (lit '' aspirin ''))) \<noteq> [] \<and>
   requests (handler_A (mock_fetch (Inl AbortError)) (page_with (lit '' aspirin ''))) =
     [\<lparr> url = lit ''http://localhost:5000/search'', http_method = lit ''POST'',
        headers = [(lit ''Content-Type'', lit ''application/json'')],
        body = lit ''{"brand_drug":"aspirin"}'' \<rparr>] \<and>
   requests (handler_B (mock_fetch (Inl AbortError)) (page_with (lit '' aspirin ''))) =
     [\<lparr> url = lit ''http://localhost:5000/search'', http_method = lit ''POST'',
        headers = [(lit ''Content-Type'', lit ''application/json'')],
        body = lit ''{"brand_drug":"aspirin"}'' \<rparr>] \<and>
   read_brand_drug (lit ''{"brand_drug":"aspirin"}'') = Some (lit ''aspirin'')\<close>
  using query_aspirin(2) one_post_per_query [OF query_aspirin(2), of "mock_fetch (Inl AbortError)"]
  by (simp add: trim_aspirin stringify_aspirin page_with_simps del: read_string.simps)

text \<open>
  C2. Whenever the input is empty or holds white space only, an activation
  shows the notice \<^verbatim>\<open>Please enter a brand drug name.\<close> and ends without sending a
  request.
\<close>

theorem blank_query_alert_no_request:
  assumes "list_all is_white_space (searchInput p)"
  shows "alerts (handler_A fetch p) = alerts p @ [lit ''Please enter a brand drug name.'']
       \<and> requests (handler_A fetch p) = requests p
       \<and> alerts (handler_B fetch p) = alerts p @ [lit ''Please enter a brand drug name.'']
       \<and> requests (handler_B fetch p) = requests p"
  using trim_blank [OF assms] by (simp add: handler_A_blank handler_B_blank alert_def)

theorem blank_query_alert_no_request_witness:
  "list_all is_white_space (searchInput (page_with (lit '' ''))) \<and>
   alerts (handler_A (mock_fetch (Inl AbortError)) (page_with (lit '' ''))) =
     [lit ''Please enter a brand drug name.''] \<and>
   requests (handler_A (mock_fetch (Inl AbortError)) (page_with (lit '' ''))) = [] \<and>
   alerts (handler_B (mock_fetch (Inl AbortError)) (page_with (lit '' ''))) =
     [lit ''Please enter a brand drug name.''] \<and>
   requests (handler_B (mock_fetch (Inl AbortError)) (page_with (lit '' ''))) = []"
  using query_blank blank_query_alert_no_request [OF query_blank, of "mock_fetch (Inl AbortError)"]
  by (simp add: page_with_simps)

text \<open>
  C3, as amended. Neither handler chooses a field set from the payload: each
  reads its own three members and nothing else of the payload, so two payloads
  that agree on those members end the activation in the same page. When the
  response is ok and its body parses, the handler reads the body once; and
  when the payload has the handler's own members as strings (for
  \<^verbatim>\<open>retailer_info\<close>, an array of strings), the container's markup becomes the
  text of the handler's template literal with those strings put in as they
  are, unescaped.
\<close>

theorem ok_renders_own_fields:
  assumes "trim (searchInput p) \<noteq> []"
    and "fetch (search_request (trim (searchInput p))) = Inr r"
    and "ok r" and "json r = Inr d"
  shows \<open>bodies_read (handler_A fetch p) = bodies_read p + 1
       \<and> bodies_read (handler_B fetch p) = bodies_read p + 1
       \<and> (get_prop d brand_drug = Inr (Some (JString x)) \<and>
          get_prop d generic_info = Inr (Some (JString y)) \<and>
          get_prop d raw_info = Inr (Some (JString z)) \<longrightarrow>
            resultDiv (handler_A fetch p) =
              innerHTML
                (lit ''\<newline>             <h2>Generic Info for '' @ x @
                 lit ''</h2>\<newline>             <p>'' @ y @
                 lit ''</p>\<newline>             <h3>Raw Info</h3>\<newline>             <p>'' @ z @
                 lit ''</p>\<newline>         ''))
       \<and> (get_prop d brand_info = Inr (Some (JString x)) \<and>
          get_prop d generic_summary = Inr (Some (JString y)) \<and>
          get_prop d retailer_info = Inr (Some (JArray (map JString infos))) \<longrightarrow>
            resultDiv (handler_B fetch p) =
              innerHTML
                (lit ''\<newline>            <div class="top-row">\<newline>                <div id="brand-box" class="box">\<newline>                    <h2>Brand Info</h2>\<newline>                    <pre>'' @ x @
                 lit ''</pre>\<newline>                </div>\<newline>                <div id="generic-box" class="box">\<newline>                    <h2>Generic Summary</h2>\<newline>                    <pre>'' @ y @
                 lit ''</pre>\<newline>                </div>\<newline>            </div>\<newline>            <div id="retailer-row" class="row">\<newline>                '' @ concat (map (\<lambda>info. lit ''<div class="retailer-box box"><pre>'' @ info @ lit ''</pre></div>'') infos) @
                 lit ''\<newline>            </div>\<newline>        ''))
       \<and> (get_prop d' brand_drug = get_prop d brand_drug \<and>
          get_prop d' generic_info = get_prop d generic_info \<and>
          get_prop d' raw_info = get_prop d raw_info \<longrightarrow>
            handler_A (mock_fetch (Inr (r\<lparr>json := Inr d'\<rparr>))) p = handler_A fetch p)
       \<and> (get_prop d' brand_info = get_prop d brand_info \<and>
          get_prop d' generic_summary = get_prop d generic_summary \<and>
          get_prop d' retailer_info = get_prop d retailer_info \<longrightarrow>
            handler_B (mock_fetch (Inr (r\<lparr>json := Inr d'\<rparr>))) p = handler_B fetch p)\<close>
proof -
  have a: "bodies_read (handler_A fetch p) = bodies_read p + 1"
    using assms by (simp add: handler_A_def Let_def catch_def split: sum.splits)
  have b: "bodies_read (handler_B fetch p) = bodies_read p + 1"
    using assms by (simp add: handler_B_def Let_def catch_def split: sum.splits)
  have c: "resultDiv (handler_A fetch p) =
             innerHTML
               (lit ''\<newline>             <h2>Generic Info for '' @ x @
                lit ''</h2>\<newline>             <p>'' @ y @
                lit ''</p>\<newline>             <h3>Raw Info</h3>\<newline>             <p>'' @ z @
                lit ''</p>\<newline>         '')"
    if "get_prop d brand_drug = Inr (Some (JString x))"
      and "get_prop d generic_info = Inr (Some (JString y))"
      and "get_prop d raw_info = Inr (Some (JString z))"
    using handler_A_rendered [where fetch = fetch and p = p and r = r and d = d,
        OF assms markup_A_strings [OF that]]
    by (simp add: template_A_def)
  have e: \<open>resultDiv (handler_B fetch p) =
             innerHTML
               (lit ''\<newline>            <div class="top-row">\<newline>                <div id="brand-box" class="box">\<newline>                    <h2>Brand Info</h2>\<newline>                    <pre>'' @ x @
                lit ''</pre>\<newline>                </div>\<newline>                <div id="generic-box" class="box">\<newline>                    <h2>Generic Summary</h2>\<newline>                    <pre>'' @ y @
                lit ''</pre>\<newline>                </div>\<newline>            </div>\<newline>            <div id="retailer-row" class="row">\<newline>                '' @ concat (map (\<lambda>info. lit ''<div class="retailer-box box"><pre>'' @ info @ lit ''</pre></div>'') infos) @
                lit ''\<newline>            </div>\<newline>        '')\<close>
    if "get_prop d brand_info = Inr (Some (JString x))"
      and "get_prop d generic_summary = Inr (Some (JString y))"
      and "get_prop d retailer_info = Inr (Some (JArray (map JString infos)))"
    using handler_B_rendered [where fetch = fetch and p = p and r = r and d = d,
        OF assms markup_B_strings [OF that]]
    by (simp add: template_B_def retailer_box_def [abs_def])
  have f: "handler_A (mock_fetch (Inr (r\<lparr>json := Inr d'\<rparr>))) p = handler_A fetch p"
    if "get_prop d' brand_drug = get_prop d brand_drug"
      and "get_prop d' generic_info = get_prop d generic_info"
      and "get_prop d' raw_info = get_prop d raw_info"
    using handler_A_same_markup [where fetch = fetch and p = p and r = r and d = d,
        OF assms markup_A_cong [OF that]] .
  have g: "handler_B (mock_fetch (Inr (r\<lparr>json := Inr d'\<rparr>))) p = handler_B fetch p"
    if "get_prop d' brand_info = get_prop d brand_info"
      and "get_prop d' generic_summary = get_prop d generic_summary"
      and "get_prop d' retailer_info = get_prop d retailer_info"
    using handler_B_same_markup [where fetch = fetch and p = p and r = r and d = d,
        OF assms markup_B_cong [OF that]] .
  show ?thesis
    using a b c e f g by blast
qed

theorem ok_renders_own_fields_witness:
  \<open>resultDiv (handler_A (mock_fetch (Inr \<lparr>ok = True, json = Inr shape_A_body\<rparr>)) (page_with (lit '' aspirin '')))
   = innerHTML (lit ''\<newline>             <h2>Generic Info for X</h2>\<newline>             <p>Y</p>\<newline>             <h3>Raw Info</h3>\<newline>             <p>Z</p>\<newline>         '')
   \<and> resultDiv (handler_B (mock_fetch (Inr \<lparr>ok = True, json = Inr shape_B_body\<rparr>)) (page_with (lit '' aspirin '')))
   = innerHTML (lit ''\<newline>            <div class="top-row">\<newline>                <div id="brand-box" class="box">\<newline>                    <h2>Brand Info</h2>\<newline>                    <pre>A</pre>\<newline>                </div>\<newline>                <div id="generic-box" class="box">\<newline>                    <h2>Generic Summary</h2>\<newline>                    <pre>B</pre>\<newline>                </div>\<newline>            </div>\<newline>            <div id="retailer-row" class="row">\<newline>                <div class="retailer-box box"><pre>C</pre></div><div class="retailer-box box"><pre>D</pre></div>\<newline>            </div>\<newline>        '')
   \<and> bodies_read (handler_A (mock_fetch (Inr \<lparr>ok = True, json = Inr shape_A_body\<rparr>)) (page_with (lit '' aspirin ''))) = 1
   \<and> bodies_read (handler_B (mock_fetch (Inr \<lparr>ok = True, json = Inr shape_B_body\<rparr>)) (page_with (lit '' aspirin ''))) = 1
   \<and> handler_A (mock_fetch (Inr \<lparr>ok = True, json = Inr (JObject [(lit ''brand_info'', JString (lit ''A'')), (lit ''brand_drug'', JString (lit ''X'')), (lit ''generic_info'', JString (lit ''Y'')), (lit ''raw_info'', JString (lit ''Z''))])\<rparr>)) (page_with (lit '' aspirin '')) = handler_A (mock_fetch (Inr \<lparr>ok = True, json = Inr shape_A_body\<rparr>)) (page_with (lit '' aspirin ''))
   \<and> handler_B (mock_fetch (Inr \<lparr>ok = True, json = Inr (JObject [(lit ''brand_drug'', JString (lit ''X'')), (lit ''brand_info'', JString (lit ''A'')), (lit ''generic_summary'', JString (lit ''B'')), (lit ''retailer_info'', JArray [JString (lit ''C''), JString (lit ''D'')])])\<rparr>)) (page_with (lit '' aspirin '')) = handler_B (mock_fetch (Inr \<lparr>ok = True, json = Inr shape_B_body\<rparr>)) (page_with (lit '' aspirin ''))\<close>
proof -
  have xa: "get_prop (JObject [(lit ''brand_info'', JString (lit ''A'')), (lit ''brand_drug'', JString (lit ''X'')), (lit ''generic_info'', JString (lit ''Y'')), (lit ''raw_info'', JString (lit ''Z''))]) f = get_prop shape_A_body f"
    if "f = brand_drug \<or> f = generic_info \<or> f = raw_info" for f
    using that by (auto simp add: shape_A_body_def own_property_def lit_def)
  have xb: "get_prop (JObject [(lit ''brand_drug'', JString (lit ''X'')), (lit ''brand_info'', JString (lit ''A'')), (lit ''generic_summary'', JString (lit ''B'')), (lit ''retailer_info'', JArray [JString (lit ''C''), JString (lit ''D'')])]) f = get_prop shape_B_body f"
    if "f = brand_info \<or> f = generic_summary \<or> f = retailer_info" for f
    using that by (auto simp add: shape_B_body_def own_property_def lit_def)
  show ?thesis
    using
      ok_renders_own_fields [where fetch = "mock_fetch (Inr \<lparr>ok = True, json = Inr shape_A_body\<rparr>)"
        and p = "page_with (lit '' aspirin '')" and d = shape_A_body
        and d' = "JObject [(lit ''brand_info'', JString (lit ''A'')), (lit ''brand_drug'', JString (lit ''X'')), (lit ''generic_info'', JString (lit ''Y'')), (lit ''raw_info'', JString (lit ''Z''))]"
        and x = "lit ''X''" and y = "lit ''Y''" and z = "lit ''Z''" and infos = "[]",
        OF query_aspirin(2) mock_fetch_simp]
      ok_renders_own_fields [where fetch = "mock_fetch (Inr \<lparr>ok = True, json = Inr shape_B_body\<rparr>)"
        and p = "page_with (lit '' aspirin '')" and d = shape_B_body
        and d' = "JObject [(lit ''brand_drug'', JString (lit ''X'')), (lit ''brand_info'', JString (lit ''A'')), (lit ''generic_summary'', JString (lit ''B'')), (lit ''retailer_info'', JArray [JString (lit ''C''), JString (lit ''D'')])]"
        and x = "lit ''A''" and y = "lit ''B''" and z = "[]" and infos = "[lit ''C'', lit ''D'']",
        OF query_aspirin(2) mock_fetch_simp]
    by (simp add: get_prop_shape_A get_prop_shape_B page_with_simps xa xb lit_append
        del: get_prop.simps)
qed

text \<open>
  C3 as it was written fails. Given the Shape A body, the handler of
  \<^verbatim>\<open>src/unnamed/part_000\<close> shows the error text and no markup; given the Shape B
  body, the handler of \<^verbatim>\<open>src/app.ts\<close> renders \<^verbatim>\<open>undefined\<close> three times and none
  of the payload's values.
\<close>

theorem ok_does_not_pick_field_set:
  "resultDiv (handler_B (mock_fetch (Inr \<lparr>ok = True, json = Inr shape_A_body\<rparr>)) (page_with (lit '' aspirin '')))
   = innerText (lit ''An error occurred.'')
   \<and> resultDiv (handler_A (mock_fetch (Inr \<lparr>ok = True, json = Inr shape_B_body\<rparr>)) (page_with (lit '' aspirin '')))
   = innerHTML (lit ''\<newline>             <h2>Generic Info for undefined</h2>\<newline>             <p>undefined</p>\<newline>             <h3>Raw Info</h3>\<newline>             <p>undefined</p>\<newline>         '')"
proof -
  have b: "markup_B shape_A_body = Inl TypeError"
    by (rule markup_B_not_array) (simp add: get_prop_shape_A)
  have a: "markup_A shape_B_body =
             Inr (template_A (lit ''undefined'') (lit ''undefined'') (lit ''undefined''))"
    by (simp add: markup_A_def and_then_def member_text_undefined get_prop_shape_B)
  show ?thesis
    using handler_B_render_throws
        [where fetch = "mock_fetch (Inr \<lparr>ok = True, json = Inr shape_A_body\<rparr>)"
          and p = "page_with (lit '' aspirin '')", OF query_aspirin(2) mock_fetch_simp _ _ b]
      handler_A_rendered
        [where fetch = "mock_fetch (Inr \<lparr>ok = True, json = Inr shape_B_body\<rparr>)"
          and p = "page_with (lit '' aspirin '')", OF query_aspirin(2) mock_fetch_simp _ _ a]
    by (simp add: catch_def template_A_def lit_append)
qed

text \<open>
  C4. When the response is not ok, the container's text becomes exactly
  \<^verbatim>\<open>Error fetching drug information.\<close> and the payload is not read: no body is
  read, and the activation ends the same whatever \<^verbatim>\<open>response.json()\<close> would
  have given.
\<close>

theorem not_ok_fixed_text:
  assumes "trim (searchInput p) \<noteq> []"
    and "fetch (search_request (trim (searchInput p))) = Inr r"
    and "\<not> ok r"
  shows "resultDiv (handler_A fetch p) = innerText (lit ''Error fetching drug information.'')
       \<and> bodies_read (handler_A fetch p) = bodies_read p
       \<and> handler_A (mock_fetch (Inr (r\<lparr>json := j\<rparr>))) p = handler_A fetch p
       \<and> resultDiv (handler_B fetch p) = innerText (lit ''Error fetching drug information.'')
       \<and> bodies_read (handler_B fetch p) = bodies_read p
       \<and> handler_B (mock_fetch (Inr (r\<lparr>json := j\<rparr>))) p = handler_B fetch p"
proof -
  have a: "handler_A (mock_fetch (Inr (r\<lparr>json := j\<rparr>))) p = handler_A fetch p"
    using assms by (simp add: handler_A_def Let_def mock_fetch_simp)
  have b: "handler_B (mock_fetch (Inr (r\<lparr>json := j\<rparr>))) p = handler_B fetch p"
    using assms by (simp add: handler_B_def Let_def mock_fetch_simp)
  show ?thesis
    using a b assms
      handler_A_not_ok [where fetch = fetch and p = p and r = r]
      handler_B_not_ok [where fetch = fetch and p = p and r = r]
    by simp
qed

theorem not_ok_fixed_text_witness:
  "resultDiv (handler_A (mock_fetch (Inr \<lparr>ok = False, json = Inr shape_A_body\<rparr>))
               (page_with (lit '' aspirin '')))
   = innerText (lit ''Error fetching drug information.'')
   \<and> bodies_read (handler_A (mock_fetch (Inr \<lparr>ok = False, json = Inr shape_A_body\<rparr>))
               (page_with (lit '' aspirin ''))) = 0
   \<and> resultDiv (handler_B (mock_fetch (Inr \<lparr>ok = False, json = Inr shape_B_body\<rparr>))
               (page_with (lit '' aspirin '')))
   = innerText (lit ''Error fetching drug information.'')
   \<and> bodies_read (handler_B (mock_fetch (Inr \<lparr>ok = False, json = Inr shape_B_body\<rparr>))
               (page_with (lit '' aspirin ''))) = 0"
  using
    not_ok_fixed_text [where fetch = "mock_fetch (Inr \<lparr>ok = False, json = Inr shape_A_body\<rparr>)"
      and p = "page_with (lit '' aspirin '')", OF query_aspirin(2) mock_fetch_simp]
    not_ok_fixed_text [where fetch = "mock_fetch (Inr \<lparr>ok = False, json = Inr shape_B_body\<rparr>)"
      and p = "page_with (lit '' aspirin '')", OF query_aspirin(2) mock_fetch_simp]
  by (simp add: page_with_simps)

text \<open>
  C5. When \<^verbatim>\<open>fetch\<close> rejects, or the body of an ok response fails to parse, or
  building the markup throws, the container's text becomes exactly
  \<^verbatim>\<open>An error occurred.\<close> and the console gets one line, \<^verbatim>\<open>Error:\<close> with the
  value that was thrown.
\<close>

theorem thrown_fixed_text:
  assumes "trim (searchInput p) \<noteq> []"
  shows "(fetch (search_request (trim (searchInput p))) = Inl e
          \<or> (\<exists>r. fetch (search_request (trim (searchInput p))) = Inr r \<and> ok r \<and>
                 (json r = Inl e \<or> (\<exists>d. json r = Inr d \<and> markup_A d = Inl e)))
          \<longrightarrow> resultDiv (handler_A fetch p) = innerText (lit ''An error occurred.'')
            \<and> console_error (handler_A fetch p) = console_error p @ [(lit ''Error:'', e)])
       \<and> (fetch (search_request (trim (searchInput p))) = Inl e
          \<or> (\<exists>r. fetch (search_request (trim (searchInput p))) = Inr r \<and> ok r \<and>
                 (json r = Inl e \<or> (\<exists>d. json r = Inr d \<and> markup_B d = Inl e)))
          \<longrightarrow> resultDiv (handler_B fetch p) = innerText (lit ''An error occurred.'')
            \<and> console_error (handler_B fetch p) = console_error p @ [(lit ''Error:'', e)])"
  using assms
  by (auto simp add: handler_A_rejected handler_A_bad_body handler_A_render_throws
      handler_B_rejected handler_B_bad_body handler_B_render_throws catch_def)

theorem thrown_fixed_text_witness:
  "resultDiv (handler_A (mock_fetch (Inl AbortError)) (page_with (lit '' aspirin '')))
     = innerText (lit ''An error occurred.'')
   \<and> console_error (handler_A (mock_fetch (Inl AbortError)) (page_with (lit '' aspirin '')))
     = [(lit ''Error:'', AbortError)]
   \<and> resultDiv (handler_A (mock_fetch (Inr \<lparr>ok = True, json = Inl SyntaxError\<rparr>))
                 (page_with (lit '' aspirin '')))
     = innerText (lit ''An error occurred.'')
   \<and> console_error (handler_A (mock_fetch (Inr \<lparr>ok = True, json = Inl SyntaxError\<rparr>))
                 (page_with (lit '' aspirin '')))
     = [(lit ''Error:'', SyntaxError)]
   \<and> resultDiv (handler_A (mock_fetch (Inr \<lparr>ok = True, json = Inr JNull\<rparr>))
                 (page_with (lit '' aspirin '')))
     = innerText (lit ''An error occurred.'')
   \<and> console_error (handler_A (mock_fetch (Inr \<lparr>ok = True, json = Inr JNull\<rparr>))
                 (page_with (lit '' aspirin '')))
     = [(lit ''Error:'', TypeError)]
   \<and> resultDiv (handler_B (mock_fetch (Inl AbortError)) (page_with (lit '' aspirin '')))
     = innerText (lit ''An error occurred.'')
   \<and> console_error (handler_B (mock_fetch (Inr \<lparr>ok = True, json = Inr shape_A_body\<rparr>))
                 (page_with (lit '' aspirin '')))
     = [(lit ''Error:'', TypeError)]"
proof -
  have n: "markup_A JNull = Inl TypeError"
    by (simp add: markup_A_def and_then_def member_text_def)
  have b: "markup_B shape_A_body = Inl TypeError"
    by (rule markup_B_not_array) (simp add: get_prop_shape_A)
  show ?thesis
    using n b
      thrown_fixed_text [OF query_aspirin(2), of "mock_fetch (Inl AbortError)" AbortError]
      thrown_fixed_text [OF query_aspirin(2),
        of "mock_fetch (Inr \<lparr>ok = True, json = Inl SyntaxError\<rparr>)" SyntaxError]
      thrown_fixed_text [OF query_aspirin(2),
        of "mock_fetch (Inr \<lparr>ok = True, json = Inr JNull\<rparr>)" TypeError]
      thrown_fixed_text [OF query_aspirin(2),
        of "mock_fetch (Inr \<lparr>ok = True, json = Inr shape_A_body\<rparr>)" TypeError]
    by (simp add: mock_fetch_simp page_with_simps)
qed

text \<open>
  C6. For an ok response whose body is the specification's Shape B example,
  the container's markup is the template with \<^verbatim>\<open>A\<close> in the brand box, \<^verbatim>\<open>B\<close> in
  the generic box, and a retailer row of exactly two boxes, \<^verbatim>\<open>C\<close> then \<^verbatim>\<open>D\<close>.
\<close>

theorem shape_B_example_rendered:
  assumes "trim (searchInput p) \<noteq> []"
    and "fetch (search_request (trim (searchInput p))) = Inr r"
    and "ok r" and "json r = Inr shape_B_body"
  shows \<open>resultDiv (handler_B fetch p) =
           innerHTML (template_B (lit ''A'') (lit ''B'')
                        (retailer_box (lit ''C'') @ retailer_box (lit ''D'')))
       \<and> resultDiv (handler_B fetch p) =
           innerHTML (lit ''\<newline>            <div class="top-row">\<newline>                <div id="brand-box" class="box">\<newline>                    <h2>Brand Info</h2>\<newline>                    <pre>A</pre>\<newline>                </div>\<newline>                <div id="generic-box" class="box">\<newline>                    <h2>Generic Summary</h2>\<newline>                    <pre>B</pre>\<newline>                </div>\<newline>            </div>\<newline>            <div id="retailer-row" class="row">\<newline>                <div class="retailer-box box"><pre>C</pre></div><div class="retailer-box box"><pre>D</pre></div>\<newline>            </div>\<newline>        '')\<close>
proof -
  have "markup_B shape_B_body =
          Inr (template_B (lit ''A'') (lit ''B'') (concat (map retailer_box [lit ''C'', lit ''D''])))"
    by (rule markup_B_strings) (simp_all add: get_prop_shape_B)
  then have "resultDiv (handler_B fetch p) =
          innerHTML (template_B (lit ''A'') (lit ''B'')
                       (retailer_box (lit ''C'') @ retailer_box (lit ''D'')))"
    using handler_B_rendered [where fetch = fetch and p = p and r = r and d = shape_B_body, OF assms]
    by simp
  then show ?thesis by (simp only: template_B_ABCD)
qed

theorem shape_B_example_rendered_witness:
  \<open>resultDiv (handler_B (mock_fetch (Inr \<lparr>ok = True, json = Inr shape_B_body\<rparr>))
                (page_with (lit '' aspirin ''))) =
     innerHTML (lit ''\<newline>            <div class="top-row">\<newline>                <div id="brand-box" class="box">\<newline>                    <h2>Brand Info</h2>\<newline>                    <pre>A</pre>\<newline>                </div>\<newline>                <div id="generic-box" class="box">\<newline>                    <h2>Generic Summary</h2>\<newline>                    <pre>B</pre>\<newline>                </div>\<newline>            </div>\<newline>            <div id="retailer-row" class="row">\<newline>                <div class="retailer-box box"><pre>C</pre></div><div class="retailer-box box"><pre>D</pre></div>\<newline>            </div>\<newline>        '')\<close>
  using shape_B_example_rendered
    [where fetch = "mock_fetch (Inr \<lparr>ok = True, json = Inr shape_B_body\<rparr>)"
       and p = "page_with (lit '' aspirin '')", OF query_aspirin(2) mock_fetch_simp]
  by (simp add: template_B_ABCD)

text \<open>
  C7. For an ok response whose body is the specification's Shape A example,
  the container's markup is the template with \<^verbatim>\<open>X\<close> in the heading, \<^verbatim>\<open>Y\<close> in
  the first paragraph and \<^verbatim>\<open>Z\<close> in the second.
\<close>

theorem shape_A_example_rendered:
  assumes "trim (searchInput p) \<noteq> []"
    and "fetch (search_request (trim (searchInput p))) = Inr r"
    and "ok r" and "json r = Inr shape_A_body"
  shows "resultDiv (handler_A fetch p) =
           innerHTML (template_A (lit ''X'') (lit ''Y'') (lit ''Z''))
       \<and> resultDiv (handler_A fetch p) =
           innerHTML (lit ''\<newline>             <h2>Generic Info for X</h2>\<newline>             <p>Y</p>\<newline>             <h3>Raw Info</h3>\<newline>             <p>Z</p>\<newline>         '')"
proof -
  have "markup_A shape_A_body = Inr (template_A (lit ''X'') (lit ''Y'') (lit ''Z''))"
    by (rule markup_A_strings) (simp_all add: get_prop_shape_A)
  then have "resultDiv (handler_A fetch p) =
          innerHTML (template_A (lit ''X'') (lit ''Y'') (lit ''Z''))"
    using handler_A_rendered [where fetch = fetch and p = p and r = r and d = shape_A_body, OF assms]
    by simp
  then show ?thesis by (simp only: template_A_XYZ)
qed

theorem shape_A_example_rendered_witness:
  "resultDiv (handler_A (mock_fetch (Inr \<lparr>ok = True, json = Inr shape_A_body\<rparr>))
                (page_with (lit '' aspirin ''))) =
     innerHTML (lit ''\<newline>             <h2>Generic Info for X</h2>\<newline>             <p>Y</p>\<newline>             <h3>Raw Info</h3>\<newline>             <p>Z</p>\<newline>         '')"
  using shape_A_example_rendered
    [where fetch = "mock_fetch (Inr \<lparr>ok = True, json = Inr shape_A_body\<rparr>)"
       and p = "page_with (lit '' aspirin '')", OF query_aspirin(2) mock_fetch_simp]
  by (simp add: template_A_XYZ)

text \<open>
  C8. With a query, activating twice in sequence, the second activation on the
  page the first one left and with the same mocked \<^verbatim>\<open>fetch\<close>, leaves the
  container with the same content after the second as after the first.
\<close>

theorem same_query_twice:
  assumes "trim (searchInput p) \<noteq> []"
  shows "resultDiv (handler_A fetch (handler_A fetch p)) = resultDiv (handler_A fetch p)
       \<and> resultDiv (handler_B fetch (handler_B fetch p)) = resultDiv (handler_B fetch p)"
  using assms resultDiv_handler_A_cong [of "handler_A fetch p" p fetch]
    resultDiv_handler_B_cong [of "handler_B fetch p" p fetch]
  by (simp add: searchInput_handler_A searchInput_handler_B)

theorem same_query_twice_witness:
  "resultDiv (handler_A (mock_fetch (Inr \<lparr>ok = True, json = Inr shape_A_body\<rparr>))
               (handler_A (mock_fetch (Inr \<lparr>ok = True, json = Inr shape_A_body\<rparr>))
                  (page_with (lit '' aspirin ''))))
   = resultDiv (handler_A (mock_fetch (Inr \<lparr>ok = True, json = Inr shape_A_body\<rparr>))
                  (page_with (lit '' aspirin '')))
   \<and> resultDiv (handler_B (mock_fetch (Inr \<lparr>ok = True, json = Inr shape_B_body\<rparr>))
               (handler_B (mock_fetch (Inr \<lparr>ok = True, json = Inr shape_B_body\<rparr>))
                  (page_with (lit '' aspirin ''))))
   = resultDiv (handler_B (mock_fetch (Inr \<lparr>ok = True, json = Inr shape_B_body\<rparr>))
                  (page_with (lit '' aspirin '')))"
  using
    same_query_twice [OF query_aspirin(2), of "mock_fetch (Inr \<lparr>ok = True, json = Inr shape_A_body\<rparr>)"]
    same_query_twice [OF query_aspirin(2), of "mock_fetch (Inr \<lparr>ok = True, json = Inr shape_B_body\<rparr>)"]
  by simp

text \<open>
  C9. Whenever the input is empty or holds white space only, an activation
  leaves the page as it was: the container keeps its content, and the input
  its value.
\<close>

theorem blank_query_keeps_page:
  assumes "list_all is_white_space (searchInput p)"
  shows "resultDiv (handler_A fetch p) = resultDiv p
       \<and> searchInput (handler_A fetch p) = searchInput p
       \<and> resultDiv (handler_B fetch p) = resultDiv p
       \<and> searchInput (handler_B fetch p) = searchInput p"
  using trim_blank [OF assms] by (simp add: handler_A_blank handler_B_blank alert_def)

theorem blank_query_keeps_page_witness:
  "resultDiv (handler_A (mock_fetch (Inl AbortError)) (page_with (lit '' ''))) = innerHTML []
   \<and> searchInput (handler_A (mock_fetch (Inl AbortError)) (page_with (lit '' ''))) = lit '' ''
   \<and> resultDiv (handler_B (mock_fetch (Inl AbortError)) (page_with (lit '' ''))) = innerHTML []
   \<and> searchInput (handler_B (mock_fetch (Inl AbortError)) (page_with (lit '' ''))) = lit '' ''"
  using blank_query_keeps_page [OF query_blank, of "mock_fetch (Inl AbortError)"]
  by (simp add: page_with_simps)

text \<open>
  C10. For an ok response whose payload has no \<^verbatim>\<open>retailer_info\<close> that is an
  array (the member is missing, or it is a value without a \<^verbatim>\<open>map\<close> to call), the
  handler of \<^verbatim>\<open>src/unnamed/part_000\<close> throws a TypeError while building the
  markup: the container ends with the text \<^verbatim>\<open>An error occurred.\<close>, not with
  markup. A missing scalar member is no error: where each scalar member is
  either missing or a string, the markup is the text of the template literal
  with \<^verbatim>\<open>undefined\<close> in the place of every missing one, in either handler, and
  nothing is written to the console.
\<close>

theorem missing_retailer_info_throws:
  assumes "trim (searchInput p) \<noteq> []"
    and "fetch (search_request (trim (searchInput p))) = Inr r"
    and "ok r" and "json r = Inr d"
  shows \<open>((\<forall>xs. get_prop d retailer_info \<noteq> Inr (Some (JArray xs))) \<longrightarrow>
            resultDiv (handler_B fetch p) = innerText (lit ''An error occurred.'')
          \<and> console_error (handler_B fetch p) = console_error p @ [(lit ''Error:'', TypeError)])
       \<and> (get_prop d brand_info = Inr (map_option JString a) \<and>
          get_prop d generic_summary = Inr (map_option JString b) \<and>
          get_prop d retailer_info = Inr (Some (JArray (map JString infos))) \<longrightarrow>
            resultDiv (handler_B fetch p) =
              innerHTML
                (lit ''\<newline>            <div class="top-row">\<newline>                <div id="brand-box" class="box">\<newline>                    <h2>Brand Info</h2>\<newline>                    <pre>'' @ (case a of None \<Rightarrow> lit ''undefined'' | Some s \<Rightarrow> s) @
                 lit ''</pre>\<newline>                </div>\<newline>                <div id="generic-box" class="box">\<newline>                    <h2>Generic Summary</h2>\<newline>                    <pre>'' @ (case b of None \<Rightarrow> lit ''undefined'' | Some s \<Rightarrow> s) @
                 lit ''</pre>\<newline>                </div>\<newline>            </div>\<newline>            <div id="retailer-row" class="row">\<newline>                '' @ concat (map (\<lambda>info. lit ''<div class="retailer-box box"><pre>'' @ info @ lit ''</pre></div>'') infos) @
                 lit ''\<newline>            </div>\<newline>        '')
          \<and> console_error (handler_B fetch p) = console_error p)
       \<and> (get_prop d brand_drug = Inr (map_option JString a) \<and>
          get_prop d generic_info = Inr (map_option JString b) \<and>
          get_prop d raw_info = Inr (map_option JString c) \<longrightarrow>
            resultDiv (handler_A fetch p) =
              innerHTML
                (lit ''\<newline>             <h2>Generic Info for '' @ (case a of None \<Rightarrow> lit ''undefined'' | Some s \<Rightarrow> s) @
                 lit ''</h2>\<newline>             <p>'' @ (case b of None \<Rightarrow> lit ''undefined'' | Some s \<Rightarrow> s) @
                 lit ''</p>\<newline>             <h3>Raw Info</h3>\<newline>             <p>'' @ (case c of None \<Rightarrow> lit ''undefined'' | Some s \<Rightarrow> s) @
                 lit ''</p>\<newline>         '')
          \<and> console_error (handler_A fetch p) = console_error p)\<close>
proof -
  have n: "resultDiv (handler_B fetch p) = innerText (lit ''An error occurred.'')
         \<and> console_error (handler_B fetch p) = console_error p @ [(lit ''Error:'', TypeError)]"
    if "\<forall>xs. get_prop d retailer_info \<noteq> Inr (Some (JArray xs))"
    using handler_B_render_throws [where fetch = fetch and p = p and r = r and d = d,
        OF assms markup_B_not_array [OF that]]
    by (simp add: catch_def)
  have m: \<open>resultDiv (handler_B fetch p) =
             innerHTML
               (lit ''\<newline>            <div class="top-row">\<newline>                <div id="brand-box" class="box">\<newline>                    <h2>Brand Info</h2>\<newline>                    <pre>'' @ (case a of None \<Rightarrow> lit ''undefined'' | Some s \<Rightarrow> s) @
                lit ''</pre>\<newline>                </div>\<newline>                <div id="generic-box" class="box">\<newline>                    <h2>Generic Summary</h2>\<newline>                    <pre>'' @ (case b of None \<Rightarrow> lit ''undefined'' | Some s \<Rightarrow> s) @
                lit ''</pre>\<newline>                </div>\<newline>            </div>\<newline>            <div id="retailer-row" class="row">\<newline>                '' @ concat (map (\<lambda>info. lit ''<div class="retailer-box box"><pre>'' @ info @ lit ''</pre></div>'') infos) @
                lit ''\<newline>            </div>\<newline>        '')
         \<and> console_error (handler_B fetch p) = console_error p\<close>
    if "get_prop d brand_info = Inr (map_option JString a)"
      and "get_prop d generic_summary = Inr (map_option JString b)"
      and "get_prop d retailer_info = Inr (Some (JArray (map JString infos)))"
    using handler_B_rendered [where fetch = fetch and p = p and r = r and d = d,
        OF assms markup_B_texts [OF member_text_missing_or_string [OF that(1)]
          member_text_missing_or_string [OF that(2)] that(3)]]
    by (simp add: template_B_def retailer_box_def [abs_def])
  have k: "resultDiv (handler_A fetch p) =
             innerHTML
               (lit ''\<newline>             <h2>Generic Info for '' @ (case a of None \<Rightarrow> lit ''undefined'' | Some s \<Rightarrow> s) @
                lit ''</h2>\<newline>             <p>'' @ (case b of None \<Rightarrow> lit ''undefined'' | Some s \<Rightarrow> s) @
                lit ''</p>\<newline>             <h3>Raw Info</h3>\<newline>             <p>'' @ (case c of None \<Rightarrow> lit ''undefined'' | Some s \<Rightarrow> s) @
                lit ''</p>\<newline>         '')
         \<and> console_error (handler_A fetch p) = console_error p"
    if "get_prop d brand_drug = Inr (map_option JString a)"
      and "get_prop d generic_info = Inr (map_option JString b)"
      and "get_prop d raw_info = Inr (map_option JString c)"
    using handler_A_rendered [where fetch = fetch and p = p and r = r and d = d,
        OF assms markup_A_texts [OF member_text_missing_or_string [OF that(1)]
          member_text_missing_or_string [OF that(2)] member_text_missing_or_string [OF that(3)]]]
    by (simp add: template_A_def)
  show ?thesis
    using n m k by blast
qed

theorem missing_retailer_info_throws_witness:
  \<open>resultDiv (handler_B (mock_fetch (Inr \<lparr>ok = True, json = Inr (JObject [(lit ''brand_info'', JString (lit ''A''))])\<rparr>)) (page_with (lit '' aspirin '')))
     = innerText (lit ''An error occurred.'')
   \<and> resultDiv (handler_B (mock_fetch (Inr \<lparr>ok = True, json = Inr (JObject [(lit ''retailer_info'', JString (lit ''C''))])\<rparr>)) (page_with (lit '' aspirin '')))
     = innerText (lit ''An error occurred.'')
   \<and> resultDiv (handler_B (mock_fetch (Inr \<lparr>ok = True, json = Inr (JObject [(lit ''retailer_info'', JArray [JString (lit ''C'')])])\<rparr>)) (page_with (lit '' aspirin '')))
     = innerHTML (lit ''\<newline>            <div class="top-row">\<newline>                <div id="brand-box" class="box">\<newline>                    <h2>Brand Info</h2>\<newline>                    <pre>undefined</pre>\<newline>                </div>\<newline>                <div id="generic-box" class="box">\<newline>                    <h2>Generic Summary</h2>\<newline>                    <pre>undefined</pre>\<newline>                </div>\<newline>            </div>\<newline>            <div id="retailer-row" class="row">\<newline>                <div class="retailer-box box"><pre>C</pre></div>\<newline>            </div>\<newline>        '')
   \<and> resultDiv (handler_A (mock_fetch (Inr \<lparr>ok = True, json = Inr (JObject [])\<rparr>)) (page_with (lit '' aspirin '')))
     = innerHTML (lit ''\<newline>             <h2>Generic Info for undefined</h2>\<newline>             <p>undefined</p>\<newline>             <h3>Raw Info</h3>\<newline>             <p>undefined</p>\<newline>         '')
   \<and> resultDiv (handler_A (mock_fetch (Inr \<lparr>ok = True, json = Inr (JObject [(lit ''generic_info'', JString (lit ''Y''))])\<rparr>)) (page_with (lit '' aspirin '')))
     = innerHTML (lit ''\<newline>             <h2>Generic Info for undefined</h2>\<newline>             <p>Y</p>\<newline>             <h3>Raw Info</h3>\<newline>             <p>undefined</p>\<newline>         '')\<close>
proof -
  have g1: "get_prop (JObject [(lit ''brand_info'', JString (lit ''A''))]) retailer_info = Inr None"
    by (simp add: own_property_def lit_def)
  have g2: "get_prop (JObject [(lit ''retailer_info'', JString (lit ''C''))]) retailer_info
              = Inr (Some (JString (lit ''C'')))"
    by (simp add: own_property_def)
  have g3: "get_prop (JObject [(lit ''retailer_info'', JArray [JString (lit ''C'')])]) retailer_info
              = Inr (Some (JArray (map JString [lit ''C''])))"
       "get_prop (JObject [(lit ''retailer_info'', JArray [JString (lit ''C'')])]) brand_info = Inr (map_option JString None)"
       "get_prop (JObject [(lit ''retailer_info'', JArray [JString (lit ''C'')])]) generic_summary = Inr (map_option JString None)"
    by (simp_all add: own_property_def lit_def)
  have g4: "get_prop (JObject []) f = Inr (map_option JString None)" for f
    by (simp add: own_property_def)
  have g5: "get_prop (JObject [(lit ''generic_info'', JString (lit ''Y''))]) brand_drug = Inr (map_option JString None)"
       "get_prop (JObject [(lit ''generic_info'', JString (lit ''Y''))]) generic_info = Inr (map_option JString (Some (lit ''Y'')))"
       "get_prop (JObject [(lit ''generic_info'', JString (lit ''Y''))]) raw_info = Inr (map_option JString None)"
    by (simp_all add: own_property_def lit_def)
  have w1: "resultDiv (handler_B (mock_fetch (Inr \<lparr>ok = True, json = Inr (JObject [(lit ''brand_info'', JString (lit ''A''))])\<rparr>)) (page_with (lit '' aspirin '')))
              = innerText (lit ''An error occurred.'')"
    using missing_retailer_info_throws
        [where fetch = "mock_fetch (Inr \<lparr>ok = True, json = Inr (JObject [(lit ''brand_info'', JString (lit ''A''))])\<rparr>)" and p = "page_with (lit '' aspirin '')" and d = "JObject [(lit ''brand_info'', JString (lit ''A''))]"
           and a = None and b = None and c = None and infos = "[]",
         OF query_aspirin(2) mock_fetch_simp]
    by (simp add: g1 del: get_prop.simps)
  have w2: "resultDiv (handler_B (mock_fetch (Inr \<lparr>ok = True, json = Inr (JObject [(lit ''retailer_info'', JString (lit ''C''))])\<rparr>)) (page_with (lit '' aspirin '')))
              = innerText (lit ''An error occurred.'')"
    using missing_retailer_info_throws
        [where fetch = "mock_fetch (Inr \<lparr>ok = True, json = Inr (JObject [(lit ''retailer_info'', JString (lit ''C''))])\<rparr>)" and p = "page_with (lit '' aspirin '')" and d = "JObject [(lit ''retailer_info'', JString (lit ''C''))]"
           and a = None and b = None and c = None and infos = "[]",
         OF query_aspirin(2) mock_fetch_simp]
    by (simp add: g2 del: get_prop.simps)
  have w3: \<open>resultDiv (handler_B (mock_fetch (Inr \<lparr>ok = True, json = Inr (JObject [(lit ''retailer_info'', JArray [JString (lit ''C'')])])\<rparr>)) (page_with (lit '' aspirin '')))
              = innerHTML (lit ''\<newline>            <div class="top-row">\<newline>                <div id="brand-box" class="box">\<newline>                    <h2>Brand Info</h2>\<newline>                    <pre>undefined</pre>\<newline>                </div>\<newline>                <div id="generic-box" class="box">\<newline>                    <h2>Generic Summary</h2>\<newline>                    <pre>undefined</pre>\<newline>                </div>\<newline>            </div>\<newline>            <div id="retailer-row" class="row">\<newline>                <div class="retailer-box box"><pre>C</pre></div>\<newline>            </div>\<newline>        '')\<close>
    using missing_retailer_info_throws
        [where fetch = "mock_fetch (Inr \<lparr>ok = True, json = Inr (JObject [(lit ''retailer_info'', JArray [JString (lit ''C'')])])\<rparr>)" and p = "page_with (lit '' aspirin '')" and d = "JObject [(lit ''retailer_info'', JArray [JString (lit ''C'')])]"
           and a = None and b = None and c = None and infos = "[lit ''C'']",
         OF query_aspirin(2) mock_fetch_simp]
    by (simp add: g3 lit_append del: get_prop.simps map_option_eq_Some)
  have w4: "resultDiv (handler_A (mock_fetch (Inr \<lparr>ok = True, json = Inr (JObject [])\<rparr>)) (page_with (lit '' aspirin '')))
              = innerHTML (lit ''\<newline>             <h2>Generic Info for undefined</h2>\<newline>             <p>undefined</p>\<newline>             <h3>Raw Info</h3>\<newline>             <p>undefined</p>\<newline>         '')"
    using missing_retailer_info_throws
        [where fetch = "mock_fetch (Inr \<lparr>ok = True, json = Inr (JObject [])\<rparr>)" and p = "page_with (lit '' aspirin '')" and d = "JObject []"
           and a = None and b = None and c = None and infos = "[]",
         OF query_aspirin(2) mock_fetch_simp]
    by (simp add: g4 lit_append del: get_prop.simps)
  have w5: "resultDiv (handler_A (mock_fetch (Inr \<lparr>ok = True, json = Inr (JObject [(lit ''generic_info'', JString (lit ''Y''))])\<rparr>)) (page_with (lit '' aspirin '')))
              = innerHTML (lit ''\<newline>             <h2>Generic Info for undefined</h2>\<newline>             <p>Y</p>\<newline>             <h3>Raw Info</h3>\<newline>             <p>undefined</p>\<newline>         '')"
    using missing_retailer_info_throws
        [where fetch = "mock_fetch (Inr \<lparr>ok = True, json = Inr (JObject [(lit ''generic_info'', JString (lit ''Y''))])\<rparr>)" and p = "page_with (lit '' aspirin '')" and d = "JObject [(lit ''generic_info'', JString (lit ''Y''))]"
           and a = None and b = "Some (lit ''Y'')" and c = None and infos = "[]",
         OF query_aspirin(2) mock_fetch_simp]
    by (simp add: g5 lit_append del: get_prop.simps)
  show ?thesis using w1 w2 w3 w4 w5 by blast
qed

end
